theory Spec2Isabelle
  imports Main
begin

section \<open>Values and objects\<close>

text \<open>
  \<^verbatim>\<open>types.ts\<close> declares \<^verbatim>\<open>Query = Record<string, unknown>\<close>. The values a query
  holds, the value a parsed response body is, and the value a \<^verbatim>\<open>catch\<close> clause
  receives are all JavaScript values of no fixed shape. They are modelled by one
  datatype: the JSON shapes (numbers restricted to integers), \<open>JBigInt\<close> for a
  \<^verbatim>\<open>bigint\<close>, and \<open>JError name message\<close> for an instance of \<^verbatim>\<open>Error\<close>.
\<close>

datatype js_value =
    JNull
  | JBool bool
  | JNum int
  | JBigInt int
  | JStr string
  | JArr "js_value list"
  | JObj "(string \<times> js_value) list"
  | JError string string

text \<open>
  An object is the list of its own properties in creation order; a well-formed object
  has no key twice. \<open>get\<close> reads a property, \<open>Object_keys\<close> lists the keys. (JavaScript
  lists keys that are array indices before the others; the list here keeps them where
  they were created. No lookup and no set of keys depends on that.)
\<close>

type_synonym 'v object = "(string \<times> 'v) list"

type_synonym Query = "js_value object"

definition Object_keys :: "'v object \<Rightarrow> string list" where
  "Object_keys obj = map fst obj"

definition well_formed :: "'v object \<Rightarrow> bool" where
  "well_formed obj = distinct (Object_keys obj)"

definition get :: "'v object \<Rightarrow> string \<Rightarrow> 'v option" where
  "get obj k = map_of obj k"

text \<open>
  Writing a property: an existing key keeps its place and takes the new value, a new
  key is added after the others.
\<close>

fun set_property :: "string \<Rightarrow> 'v \<Rightarrow> 'v object \<Rightarrow> 'v object" where
  "set_property k v [] = [(k, v)]"
| "set_property k v ((k', v') # ps) =
     (if k' = k then (k, v) # ps else (k', v') # set_property k v ps)"

text \<open>
  The spread element \<^verbatim>\<open>...source\<close> of an object literal copies the own properties of
  \<^verbatim>\<open>source\<close>, in order, into the object built so far. The literal
  \<^verbatim>\<open>{ ...a, ...b }\<close> is \<open>spread (spread [] a) b\<close>.
\<close>

definition spread :: "'v object \<Rightarrow> 'v object \<Rightarrow> 'v object" where
  "spread target source = fold (\<lambda>(k, v). set_property k v) source target"

section \<open>The request descriptor (class MongoDBRequest)\<close>

text \<open>
  \<open>endpoint\<close> is \<^verbatim>\<open>T | null\<close> with \<^verbatim>\<open>T\<close> a string type; \<open>baseQuery\<close> is the private
  field \<^verbatim>\<open>#baseQuery\<close>; \<open>query\<close> is a plain field.
\<close>

text \<open>
  Modelled from the spec: the field \<open>descriptor_headers\<close>, the descriptor's \<^verbatim>\<open>headers\<close>
  mapping. The class in \<^verbatim>\<open>main.ts\<close> declares no such field; the spec (4.1), the README and
  the tests assign it as a plain mutable field that starts empty. Nothing in \<^verbatim>\<open>main.ts\<close>
  reads it.
\<close>

record MongoDBRequest =
  endpoint :: "string option"
  baseQuery :: Query
  query :: Query
  descriptor_headers :: "string object"

definition new_MongoDBRequest :: MongoDBRequest where
  "new_MongoDBRequest =
     \<lparr>endpoint = None, baseQuery = [], query = [], descriptor_headers = []\<rparr>"

text \<open>The setter \<^verbatim>\<open>set baseQuery(newBaseQuery)\<close>.\<close>

definition set_baseQuery :: "Query \<Rightarrow> MongoDBRequest \<Rightarrow> MongoDBRequest" where
  "set_baseQuery newBaseQuery this =
     this\<lparr>baseQuery := spread (spread [] (baseQuery this)) newBaseQuery\<rparr>"

text \<open>Assignments to the plain fields \<^verbatim>\<open>query\<close> and \<^verbatim>\<open>endpoint\<close>.\<close>

definition set_query :: "Query \<Rightarrow> MongoDBRequest \<Rightarrow> MongoDBRequest" where
  "set_query newQuery this = this\<lparr>query := newQuery\<rparr>"

definition set_endpoint :: "string option \<Rightarrow> MongoDBRequest \<Rightarrow> MongoDBRequest" where
  "set_endpoint newEndpoint this = this\<lparr>endpoint := newEndpoint\<rparr>"

text \<open>The getter \<^verbatim>\<open>get fullQuery()\<close>.\<close>

definition fullQuery :: "MongoDBRequest \<Rightarrow> Query" where
  "fullQuery this = spread (spread [] (baseQuery this)) (query this)"

section \<open>Serialisation\<close>

text \<open>
  \<^verbatim>\<open>JSON.stringify\<close> returns a text or throws. On the values above it throws exactly
  when a \<^verbatim>\<open>bigint\<close> stands somewhere in the value, and what it throws is a
  \<^verbatim>\<open>TypeError\<close>. (It also throws on a cyclic value, which the datatype cannot hold.)
  The text it returns otherwise is a parameter \<open>stringify\<close> of the dispatcher.
\<close>

primrec serialisable :: "js_value \<Rightarrow> bool" where
  "serialisable JNull = True"
| "serialisable (JBool b) = True"
| "serialisable (JNum n) = True"
| "serialisable (JBigInt n) = False"
| "serialisable (JStr s) = True"
| "serialisable (JArr xs) = list_all id (map serialisable xs)"
| "serialisable (JObj ps) = list_all id (map snd (map (map_prod id serialisable) ps))"
| "serialisable (JError name message) = True"

definition cannot_serialise :: js_value where
  "cannot_serialise = JError ''TypeError'' ''Do not know how to serialize a BigInt''"

section \<open>Errors\<close>

datatype parameter = Endpoint_parameter | Query_parameter

definition parameter_text :: "parameter \<Rightarrow> string" where
  "parameter_text p = (case p of Endpoint_parameter \<Rightarrow> ''Endpoint'' | Query_parameter \<Rightarrow> ''Query'')"

text \<open>
  What the promise returned by \<^verbatim>\<open>sendDBRequest\<close> can reject with: an instance of one of
  the two error classes, with the public fields its constructor stores, or any other
  thrown value. The third constructor argument of \<^verbatim>\<open>MRHRequestError\<close> is stored as it is
  passed, so the field \<open>mongoErrorMessage\<close> holds a value of any shape.
\<close>

datatype rejection =
    MRHMissingParameterError parameter
  | MRHRequestError (error_endpoint: string) (error_query: Query) (mongoErrorMessage: js_value)
  | Unclassified js_value

fun is_MRHRequestError :: "rejection \<Rightarrow> bool" where
  "is_MRHRequestError (MRHRequestError ep q m) = True"
| "is_MRHRequestError (MRHMissingParameterError p) = False"
| "is_MRHRequestError (Unclassified v) = False"

fun is_MRHMissingParameterError :: "rejection \<Rightarrow> bool" where
  "is_MRHMissingParameterError (MRHMissingParameterError p) = True"
| "is_MRHMissingParameterError (MRHRequestError ep q m) = False"
| "is_MRHMissingParameterError (Unclassified v) = False"

text \<open>The messages the two constructors pass to \<^verbatim>\<open>super\<close>.\<close>

definition MRHMissingParameterError_message :: "parameter \<Rightarrow> string" where
  "MRHMissingParameterError_message p = ''Error: Missing required parameter: '' @ parameter_text p"

text \<open>
  The template of \<^verbatim>\<open>MRHRequestError\<close> converts its third argument to a string
  (\<open>toString\<close>) and serialises the query (\<open>stringify\<close>); there is a line feed before
  \<^verbatim>\<open>Endpoint:\<close> and none before \<^verbatim>\<open>Query:\<close>.
\<close>

definition MRHRequestError_message ::
  "(js_value \<Rightarrow> string) \<Rightarrow> (js_value \<Rightarrow> string) \<Rightarrow> string \<Rightarrow> Query \<Rightarrow> js_value \<Rightarrow> string" where
  "MRHRequestError_message toString stringify ep q m =
     ''Error: Database request failed '' @ toString m @ [CHR 0x0A] @
     ''Endpoint: '' @ ep @ ''Query: '' @ stringify (JObj q)"

text \<open>
  What \<^verbatim>\<open>throw new MRHRequestError(endpoint, query, error)\<close> throws: the constructor
  serialises \<^verbatim>\<open>query\<close> for its message, so where that throws, the \<^verbatim>\<open>TypeError\<close> is
  thrown in place of the new error.
\<close>

definition throw_new_MRHRequestError :: "string \<Rightarrow> Query \<Rightarrow> js_value \<Rightarrow> rejection" where
  "throw_new_MRHRequestError ep q error =
     (if serialisable (JObj q) then MRHRequestError ep q error
      else Unclassified cannot_serialise)"

section \<open>The transport\<close>

record DatabaseConfig =
  baseUrl :: string
  dataSource :: string
  database :: string
  apiKey :: string

record RequestInit =
  http_method :: string
  headers :: "string object"
  body :: string

text \<open>
  \<open>RequestInit\<close> above is the object literal the dispatcher passes to \<^verbatim>\<open>fetch\<close>; its key
  \<^verbatim>\<open>method\<close> is the field \<open>http_method\<close>.

  A response has a status and the outcome of \<^verbatim>\<open>response.json()\<close>: \<open>Inl e\<close> when reading
  the body as JSON rejects with \<open>e\<close>, \<open>Inr v\<close> when it resolves to the parsed value.
\<close>

record Response =
  status :: nat
  json :: "js_value + js_value"

text \<open>
  \<^verbatim>\<open>fetch(url, requestInit)\<close>: \<open>Inl e\<close> when the call rejects with \<open>e\<close>, \<open>Inr response\<close>
  when it resolves. The transport is a parameter of the dispatcher, as is the text
  \<^verbatim>\<open>JSON.stringify\<close> returns.
\<close>

type_synonym fetch = "string \<Rightarrow> RequestInit \<Rightarrow> js_value + Response"

section \<open>The dispatcher (createSendDBRequestFunction)\<close>

definition isExistQuery :: "Query \<Rightarrow> bool" where
  "isExistQuery q = (length (Object_keys q) > 0)"

text \<open>\<^verbatim>\<open>!request.endpoint\<close>: \<^verbatim>\<open>null\<close> and the empty string are falsy.\<close>

definition endpoint_unset :: "string option \<Rightarrow> bool" where
  "endpoint_unset e = (case e of None \<Rightarrow> True | Some s \<Rightarrow> s = [])"

text \<open>
  The state a dispatch runs in: the descriptor object its argument refers to, and the
  calls made to \<^verbatim>\<open>fetch\<close> so far, oldest first. The transport is given the url and
  the request options, not the descriptor.
\<close>

record world =
  request :: MongoDBRequest
  calls :: "(string \<times> RequestInit) list"

text \<open>
  The three local constants of \<^verbatim>\<open>sendDBRequest\<close>: \<^verbatim>\<open>url\<close>, \<^verbatim>\<open>query\<close> (the object literal
  \<^verbatim>\<open>{ dataSource, database, ...request.fullQuery }\<close>) and \<^verbatim>\<open>requestInit\<close>.
\<close>

definition url_of :: "DatabaseConfig \<Rightarrow> string \<Rightarrow> string" where
  "url_of config ep = baseUrl config @ ep"

definition body_query :: "DatabaseConfig \<Rightarrow> MongoDBRequest \<Rightarrow> Query" where
  "body_query config this =
     spread
       [(''dataSource'', JStr (dataSource config)), (''database'', JStr (database config))]
       (fullQuery this)"

definition requestInit_of ::
  "DatabaseConfig \<Rightarrow> (js_value \<Rightarrow> string) \<Rightarrow> MongoDBRequest \<Rightarrow> RequestInit" where
  "requestInit_of config stringify this =
     \<lparr>http_method = ''POST'',
      headers = [(''Content-Type'', ''application/json''), (''api-key'', apiKey config)],
      body = stringify (JObj (body_query config this))\<rparr>"

text \<open>
  The dispatch function. The two checks come first and throw before anything else is
  done. The request options are built next, outside the \<^verbatim>\<open>try\<close> block: where
  \<^verbatim>\<open>JSON.stringify(query)\<close> throws, the dispatch rejects with what it threw and no call
  is made. The \<^verbatim>\<open>try\<close> block holds both \<^verbatim>\<open>await fetch(url, requestInit)\<close> and
  \<^verbatim>\<open>await response.json()\<close>; its \<^verbatim>\<open>catch (error)\<close> clause reads \<^verbatim>\<open>request.endpoint\<close> and
  \<^verbatim>\<open>request.fullQuery\<close> again and passes them, with \<^verbatim>\<open>error\<close> itself, to
  \<^verbatim>\<open>new MRHRequestError\<close>. The endpoint read again is \<open>ep\<close>: nothing has written the
  descriptor in between.
\<close>

definition sendDBRequest ::
  "DatabaseConfig \<Rightarrow> (js_value \<Rightarrow> string) \<Rightarrow> fetch \<Rightarrow> world \<Rightarrow> (rejection + js_value) \<times> world" where
  "sendDBRequest config stringify fetch w =
     (case endpoint (request w) of
        None \<Rightarrow> (Inl (MRHMissingParameterError Endpoint_parameter), w)
      | Some ep \<Rightarrow>
          if ep = [] then (Inl (MRHMissingParameterError Endpoint_parameter), w)
          else if \<not> isExistQuery (fullQuery (request w))
          then (Inl (MRHMissingParameterError Query_parameter), w)
          else if \<not> serialisable (JObj (body_query config (request w)))
          then (Inl (Unclassified cannot_serialise), w)
          else
            let url = url_of config ep;
                requestInit = requestInit_of config stringify (request w);
                w' = w\<lparr>calls := calls w @ [(url, requestInit)]\<rparr>
            in (case fetch url requestInit of
                  Inl error \<Rightarrow>
                    (Inl (throw_new_MRHRequestError ep (fullQuery (request w')) error), w')
                | Inr response \<Rightarrow>
                    (case json response of
                       Inl error \<Rightarrow>
                         (Inl (throw_new_MRHRequestError ep (fullQuery (request w')) error), w')
                     | Inr result \<Rightarrow> (Inr result, w'))))"

section \<open>Concrete runs\<close>

text \<open>
  A serialiser for the concrete runs below. On strings, booleans, \<^verbatim>\<open>null\<close>, integers of
  ordinary size, arrays and objects of these it produces the text \<^verbatim>\<open>JSON.stringify\<close>
  produces; an \<^verbatim>\<open>Error\<close> instance has no enumerable property and serialises as \<^verbatim>\<open>{}\<close>.
  A \<^verbatim>\<open>bigint\<close> has no text (\<^verbatim>\<open>JSON.stringify\<close> throws there, see \<open>serialisable\<close>); the
  equation for it is never used. The general statements do not depend on this
  serialiser: they hold for every \<open>stringify\<close>.
\<close>

definition hex_digit :: "nat \<Rightarrow> char" where
  "hex_digit n = ''0123456789abcdef'' ! (n mod 16)"

definition quote_char :: "char \<Rightarrow> string" where
  "quote_char c =
     (if c = CHR 0x22 then [CHR 0x5C, CHR 0x22]
      else if c = CHR 0x5C then [CHR 0x5C, CHR 0x5C]
      else if c = CHR 0x08 then [CHR 0x5C, CHR ''b'']
      else if c = CHR 0x0C then [CHR 0x5C, CHR ''f'']
      else if c = CHR 0x0A then [CHR 0x5C, CHR ''n'']
      else if c = CHR 0x0D then [CHR 0x5C, CHR ''r'']
      else if c = CHR 0x09 then [CHR 0x5C, CHR ''t'']
      else if (of_char c :: nat) < 32
      then [CHR 0x5C, CHR ''u'', CHR ''0'', CHR ''0'',
            hex_digit (of_char c div 16), hex_digit (of_char c mod 16)]
      else [c])"

definition quote :: "string \<Rightarrow> string" where
  "quote s = [CHR 0x22] @ concat (map quote_char s) @ [CHR 0x22]"

fun decimal :: "nat \<Rightarrow> string" where
  "decimal n =
     (if n < 10 then [hex_digit n] else decimal (n div 10) @ [hex_digit (n mod 10)])"

definition show_int :: "int \<Rightarrow> string" where
  "show_int i = (if i < 0 then CHR ''-'' # decimal (nat (- i)) else decimal (nat i))"

fun join :: "string \<Rightarrow> string list \<Rightarrow> string" where
  "join sep [] = []"
| "join sep [x] = x"
| "join sep (x # y # ys) = x @ sep @ join sep (y # ys)"

primrec JSON_stringify :: "js_value \<Rightarrow> string" where
  "JSON_stringify JNull = ''null''"
| "JSON_stringify (JBool b) = (if b then ''true'' else ''false'')"
| "JSON_stringify (JNum n) = show_int n"
| "JSON_stringify (JBigInt n) = []"
| "JSON_stringify (JStr s) = quote s"
| "JSON_stringify (JArr xs) = ''['' @ join '','' (map JSON_stringify xs) @ '']''"
| "JSON_stringify (JObj ps) =
     ''{'' @ join '','' (map (\<lambda>(k, s). quote k @ '':'' @ s)
                           (map (map_prod id JSON_stringify) ps)) @ ''}''"
| "JSON_stringify (JError name message) = ''{}''"

text \<open>
  The configuration of the tests (their \<^verbatim>\<open>databaseConfig\<close>, with no \<^verbatim>\<open>APP_ID\<close> and no
  \<^verbatim>\<open>API_KEY\<close> in the environment), and transports in the manner of the tests' stubs: one
  that rejects every call with a given value, one that answers every call with a given
  response.
\<close>

definition databaseConfig :: DatabaseConfig where
  "databaseConfig =
     \<lparr>baseUrl = [], dataSource = ''Cluster0'', database = ''sample_mflix'',
      apiKey = ''API_KEY_IS_NOT_SETTED''\<rparr>"

definition fetch_rejecting :: "js_value \<Rightarrow> fetch" where
  "fetch_rejecting e = (\<lambda>url requestInit. Inl e)"

definition fetch_responding :: "Response \<Rightarrow> fetch" where
  "fetch_responding response = (\<lambda>url requestInit. Inr response)"

text \<open>
  A descriptor built by assigning \<open>endpoint\<close>, \<open>baseQuery\<close> and \<open>query\<close> on a new
  instance, and a world with no call made yet.
\<close>

definition descriptor :: "string option \<Rightarrow> Query \<Rightarrow> Query \<Rightarrow> MongoDBRequest" where
  "descriptor ep base q = set_query q (set_baseQuery base (set_endpoint ep new_MongoDBRequest))"

definition fresh_world :: "MongoDBRequest \<Rightarrow> world" where
  "fresh_world r = \<lparr>request = r, calls = []\<rparr>"

text \<open>
  Values the tests use: the error their failing stub rejects with
  (\<^verbatim>\<open>new Error("Fetch failed")\<close>), and the error a body that is not JSON makes
  \<^verbatim>\<open>response.json()\<close> reject with.
\<close>

definition fetch_failed :: js_value where
  "fetch_failed = JError ''Error'' ''Fetch failed''"

definition not_json :: js_value where
  "not_json = JError ''SyntaxError'' ''Unexpected end of JSON input''"

text \<open>
  The descriptors of the tests: "basic request", "MRHRequestError should be thrown on
  fetch failure", and "should merge baseQuery and query correctly" (the last with a
  nested \<^verbatim>\<open>filter\<close> added to its base query); and the first of them with
  \<^verbatim>\<open>limit: 10n\<close> added to its query.
\<close>

definition books_request :: MongoDBRequest where
  "books_request = descriptor (Some ''/find'') [] [(''collection'', JStr ''books'')]"

definition comments_request :: MongoDBRequest where
  "comments_request = descriptor (Some ''/find'') [] [(''collection'', JStr ''comments'')]"

definition bigint_request :: MongoDBRequest where
  "bigint_request =
     descriptor (Some ''/find'') [] [(''collection'', JStr ''books''), (''limit'', JBigInt 10)]"

definition movies_request :: MongoDBRequest where
  "movies_request =
     descriptor None
       [(''collection'', JStr ''movies''), (''limit'', JNum 10),
        (''filter'', JObj [(''year'', JNum 1999)])]
       [(''filter'', JObj [(''genre'', JStr ''Sci-Fi'')]), (''limit'', JNum 5)]"


text \<open>A response with status 200 whose body is the JSON text \<^verbatim>\<open>null\<close>.\<close>

definition no_content :: Response where
  "no_content = \<lparr>status = 200, json = Inr JNull\<rparr>"


text \<open>
  A response with status 200 whose body is not JSON, and the descriptors of the header
  tests: the one of "should include custom headers in the request", and one whose
  header has the name of a mandatory header.
\<close>

definition malformed :: Response where
  "malformed = \<lparr>status = 200, json = Inl not_json\<rparr>"

definition custom_header_request :: MongoDBRequest where
  "custom_header_request =
     books_request\<lparr>descriptor_headers := [(''Custom-Header'', ''HeaderValue'')]\<rparr>"

definition content_type_request :: MongoDBRequest where
  "content_type_request =
     books_request\<lparr>descriptor_headers := [(''Content-Type'', ''text/plain'')]\<rparr>"


section \<open>Properties of objects and of the spread\<close>

lemma map_of_set_property: "map_of (set_property k v ps) = (map_of ps)(k \<mapsto> v)"
  by (induction ps) (auto simp: fun_eq_iff)

lemma keys_set_property:
  "fst ` set (set_property k v ps) = insert k (fst ` set ps)"
proof (induction ps)
  case Nil
  show ?case by simp
next
  case (Cons p ps)
  obtain k' v' where p: "p = (k', v')" by (cases p)
  show ?case
  proof (cases "k' = k")
    case True
    then show ?thesis using p by simp
  next
    case False
    then show ?thesis using p Cons.IH by (simp add: insert_commute)
  qed
qed

lemma distinct_set_property:
  "distinct (map fst ps) \<Longrightarrow> distinct (map fst (set_property k v ps))"
proof (induction ps)
  case Nil
  show ?case by simp
next
  case (Cons p ps)
  obtain k' v' where p: "p = (k', v')" by (cases p)
  show ?case
  proof (cases "k' = k")
    case True
    then show ?thesis using p Cons.prems by simp
  next
    case False
    then show ?thesis using p Cons by (simp add: keys_set_property)
  qed
qed

lemma set_property_not_Nil: "set_property k v ps \<noteq> []"
  by (cases ps) (auto split: if_splits)

lemma set_property_fresh:
  "k \<notin> fst ` set ps \<Longrightarrow> set_property k v ps = ps @ [(k, v)]"
  by (induction ps) auto

lemma fold_set_property_map_of:
  "distinct (map fst src) \<Longrightarrow>
   map_of (fold (\<lambda>(k, v). set_property k v) src tgt) = map_of tgt ++ map_of src"
proof (induction src arbitrary: tgt)
  case Nil
  then show ?case by simp
next
  case (Cons p src)
  obtain k v where p: "p = (k, v)" by (cases p)
  from Cons.prems p have fresh: "k \<notin> fst ` set src" and d: "distinct (map fst src)"
    by auto
  from fresh have none: "map_of src k = None"
    by (simp add: map_of_eq_None_iff)
  have "map_of (fold (\<lambda>(k, v). set_property k v) (p # src) tgt)
      = map_of (set_property k v tgt) ++ map_of src"
    using Cons.IH [OF d] p by simp
  also have "\<dots> = (map_of tgt)(k \<mapsto> v) ++ map_of src"
    by (simp add: map_of_set_property)
  also have "\<dots> = map_of tgt ++ map_of (p # src)"
    using none p by (auto simp: fun_eq_iff map_add_def split: option.splits)
  finally show ?case .
qed

lemma fold_set_property_distinct:
  "distinct (map fst tgt) \<Longrightarrow>
   distinct (map fst (fold (\<lambda>(k, v). set_property k v) src tgt))"
proof (induction src arbitrary: tgt)
  case Nil
  then show ?case by simp
next
  case (Cons p src)
  obtain k v where p: "p = (k, v)" by (cases p)
  have "distinct (map fst (set_property k v tgt))"
    using Cons.prems by (rule distinct_set_property)
  then show ?case using Cons.IH p by simp
qed

lemma fold_set_property_Nil:
  "fold (\<lambda>(k, v). set_property k v) src tgt = [] \<longleftrightarrow> src = [] \<and> tgt = []"
proof (induction src arbitrary: tgt)
  case Nil
  show ?case by simp
next
  case (Cons p src)
  obtain k v where p: "p = (k, v)" by (cases p)
  show ?case using Cons.IH [of "set_property k v tgt"] p
    by (simp add: set_property_not_Nil)
qed

lemma fold_set_property_append:
  "distinct (map fst src) \<Longrightarrow> fst ` set src \<inter> fst ` set tgt = {} \<Longrightarrow>
   fold (\<lambda>(k, v). set_property k v) src tgt = tgt @ src"
proof (induction src arbitrary: tgt)
  case Nil
  then show ?case by simp
next
  case (Cons p src)
  obtain k v where p: "p = (k, v)" by (cases p)
  from Cons.prems p have k: "k \<notin> fst ` set tgt" by auto
  have step: "set_property k v tgt = tgt @ [(k, v)]"
    using k by (rule set_property_fresh)
  have disj: "fst ` set src \<inter> fst ` set (tgt @ [(k, v)]) = {}"
    using Cons.prems p by auto
  have d: "distinct (map fst src)" using Cons.prems by simp
  have "fold (\<lambda>(k, v). set_property k v) src (tgt @ [(k, v)]) = (tgt @ [(k, v)]) @ src"
    using d disj by (rule Cons.IH)
  then show ?case using p step by simp
qed

text \<open>The same facts in terms of \<open>spread\<close>, \<open>get\<close> and \<open>well_formed\<close>.\<close>

lemma get_spread:
  "well_formed source \<Longrightarrow> get (spread target source) = get target ++ get source"
  unfolding well_formed_def Object_keys_def spread_def get_def
  by (rule fold_set_property_map_of)

lemma well_formed_spread: "well_formed target \<Longrightarrow> well_formed (spread target source)"
  unfolding well_formed_def Object_keys_def spread_def
  by (rule fold_set_property_distinct)

lemma well_formed_Nil: "well_formed []"
  by (simp add: well_formed_def Object_keys_def)

lemma spread_eq_Nil: "spread target source = [] \<longleftrightarrow> target = [] \<and> source = []"
  unfolding spread_def by (simp add: fold_set_property_Nil conj_commute)

lemma spread_Nil_left: "well_formed source \<Longrightarrow> spread [] source = source"
  unfolding well_formed_def Object_keys_def spread_def
  using fold_set_property_append [of source "[]"] by simp

lemma spread_Nil_right: "spread target [] = target"
  by (simp add: spread_def)

lemma isExistQuery_iff: "isExistQuery q \<longleftrightarrow> q \<noteq> []"
  by (simp add: isExistQuery_def Object_keys_def)

lemma fullQuery_eq_Nil: "fullQuery r = [] \<longleftrightarrow> baseQuery r = [] \<and> query r = []"
  by (simp add: fullQuery_def spread_eq_Nil)

lemma well_formed_fullQuery: "well_formed (fullQuery r)"
  unfolding fullQuery_def by (intro well_formed_spread well_formed_Nil)

lemma get_fullQuery:
  assumes "well_formed (baseQuery r)" and "well_formed (query r)"
  shows "get (fullQuery r) = get (baseQuery r) ++ get (query r)"
proof -
  have "spread [] (baseQuery r) = baseQuery r"
    using assms(1) by (rule spread_Nil_left)
  then show ?thesis
    using get_spread [OF assms(2), of "baseQuery r"] by (simp add: fullQuery_def)
qed

lemma MRHMissingParameterError_message_texts:
  "MRHMissingParameterError_message Endpoint_parameter =
     ''Error: Missing required parameter: Endpoint''"
  "MRHMissingParameterError_message Query_parameter =
     ''Error: Missing required parameter: Query''"
  by (simp_all add: MRHMissingParameterError_message_def parameter_text_def)

lemma endpoint_unset_iff: "endpoint_unset e \<longleftrightarrow> e = None \<or> e = Some []"
  by (simp add: endpoint_unset_def split: option.splits)

text \<open>The outcome of a dispatch, branch by branch.\<close>

lemma sendDBRequest_endpoint_unset:
  "endpoint_unset (endpoint (request w)) \<Longrightarrow>
   sendDBRequest config stringify fetch w =
     (Inl (MRHMissingParameterError Endpoint_parameter), w)"
  by (auto simp: sendDBRequest_def endpoint_unset_iff)

lemma sendDBRequest_query_empty:
  "endpoint (request w) = Some ep \<Longrightarrow> ep \<noteq> [] \<Longrightarrow> fullQuery (request w) = [] \<Longrightarrow>
   sendDBRequest config stringify fetch w =
     (Inl (MRHMissingParameterError Query_parameter), w)"
  by (simp add: sendDBRequest_def isExistQuery_iff)

lemma serialisable_JObj:
  "serialisable (JObj ps) \<longleftrightarrow> (\<forall>p \<in> set ps. serialisable (snd p))"
  by (auto simp: list_all_iff)

lemma spread_keeps_source:
  assumes "well_formed source"
  shows "set source \<subseteq> set (spread target source)"
proof
  fix p assume p: "p \<in> set source"
  obtain k v where kv: "p = (k, v)" by (cases p)
  from assms have d: "distinct (map fst source)"
    by (simp add: well_formed_def Object_keys_def)
  from d p kv have "map_of source k = Some v" by simp
  then have "get (spread target source) k = Some v"
    by (simp add: get_spread [OF assms] get_def)
  then have "(k, v) \<in> set (spread target source)"
    by (simp add: get_def map_of_SomeD)
  with kv show "p \<in> set (spread target source)" by simp
qed

lemma serialisable_fullQuery:
  assumes "serialisable (JObj (body_query config r))"
  shows "serialisable (JObj (fullQuery r))"
proof -
  have "set (fullQuery r) \<subseteq> set (body_query config r)"
    unfolding body_query_def using well_formed_fullQuery by (rule spread_keeps_source)
  with assms show ?thesis unfolding serialisable_JObj by blast
qed

lemma sendDBRequest_not_serialisable:
  "endpoint (request w) = Some ep \<Longrightarrow> ep \<noteq> [] \<Longrightarrow> fullQuery (request w) \<noteq> [] \<Longrightarrow>
   \<not> serialisable (JObj (body_query config (request w))) \<Longrightarrow>
   sendDBRequest config stringify fetch w = (Inl (Unclassified cannot_serialise), w)"
  by (simp add: sendDBRequest_def isExistQuery_iff)

lemma sendDBRequest_valid:
  assumes "endpoint (request w) = Some ep" and "ep \<noteq> []" and "fullQuery (request w) \<noteq> []"
    and "serialisable (JObj (body_query config (request w)))"
  shows "sendDBRequest config stringify fetch w =
    (case fetch (url_of config ep) (requestInit_of config stringify (request w)) of
       Inl error \<Rightarrow> Inl (MRHRequestError ep (fullQuery (request w)) error)
     | Inr response \<Rightarrow>
         (case json response of
            Inl error \<Rightarrow> Inl (MRHRequestError ep (fullQuery (request w)) error)
          | Inr result \<Rightarrow> Inr result),
     w\<lparr>calls := calls w @ [(url_of config ep, requestInit_of config stringify (request w))]\<rparr>)"
  using assms serialisable_fullQuery [OF assms(4)]
  by (simp add: sendDBRequest_def isExistQuery_iff Let_def throw_new_MRHRequestError_def
      split: sum.splits)

lemmas run_defs =
  sendDBRequest_def isExistQuery_def endpoint_unset_def Object_keys_def
  url_of_def requestInit_of_def body_query_def fullQuery_def spread_def
  fresh_world_def descriptor_def set_query_def set_baseQuery_def set_endpoint_def
  new_MongoDBRequest_def databaseConfig_def fetch_rejecting_def fetch_responding_def
  fetch_failed_def not_json_def throw_new_MRHRequestError_def cannot_serialise_def
  well_formed_def get_def

lemmas text_defs = quote_def quote_char_def

section \<open>Validation\<close>

text \<open>
  Claim C1. Dispatch checks the endpoint first and the effective query second, and the
  first failure wins. It fails with \<open>MRHMissingParameterError\<close> for the endpoint exactly
  when the endpoint is unset (\<^verbatim>\<open>null\<close> or the empty string), whatever the queries hold;
  and it fails with \<open>MRHMissingParameterError\<close> for the query exactly when the endpoint
  is set and the effective query is empty.
\<close>

theorem C1_endpoint_checked_before_query:
  "(fst (sendDBRequest config stringify fetch w) =
      Inl (MRHMissingParameterError Endpoint_parameter) \<longleftrightarrow>
    endpoint_unset (endpoint (request w))) \<and>
   (fst (sendDBRequest config stringify fetch w) =
      Inl (MRHMissingParameterError Query_parameter) \<longleftrightarrow>
    \<not> endpoint_unset (endpoint (request w)) \<and> fullQuery (request w) = [])"
proof (cases "endpoint_unset (endpoint (request w))")
  case True
  then show ?thesis by (simp add: sendDBRequest_endpoint_unset)
next
  case False
  then obtain ep where ep: "endpoint (request w) = Some ep" "ep \<noteq> []"
    by (auto simp: endpoint_unset_iff)
  show ?thesis
  proof (cases "fullQuery (request w) = []")
    case True
    with ep False show ?thesis by (simp add: sendDBRequest_query_empty)
  next
    case nonempty: False
    show ?thesis
    proof (cases "serialisable (JObj (body_query config (request w)))")
      case True
      with ep nonempty False show ?thesis
        by (simp add: sendDBRequest_valid split: sum.splits)
    next
      case False
      with ep nonempty \<open>\<not> endpoint_unset (endpoint (request w))\<close> show ?thesis
        by (simp add: sendDBRequest_not_serialisable)
    qed
  qed
qed

text \<open>
  Four runs: nothing set, an empty endpoint with a query, an endpoint with no query, and
  the valid request of the test "basic request", which fails with neither.
\<close>

theorem C1_endpoint_checked_before_query_witness:
  "endpoint_unset (endpoint (request (fresh_world (descriptor None [] [])))) \<and>
   fullQuery (request (fresh_world (descriptor None [] []))) = [] \<and>
   fst (sendDBRequest databaseConfig JSON_stringify (fetch_rejecting fetch_failed)
          (fresh_world (descriptor None [] []))) =
     Inl (MRHMissingParameterError Endpoint_parameter) \<and>
   endpoint_unset (endpoint (request (fresh_world
     (descriptor (Some []) [] [(''collection'', JStr ''comments'')])))) \<and>
   fst (sendDBRequest databaseConfig JSON_stringify (fetch_rejecting fetch_failed)
          (fresh_world (descriptor (Some []) [] [(''collection'', JStr ''comments'')]))) =
     Inl (MRHMissingParameterError Endpoint_parameter) \<and>
   \<not> endpoint_unset (endpoint (request (fresh_world (descriptor (Some ''/find'') [] [])))) \<and>
   fullQuery (request (fresh_world (descriptor (Some ''/find'') [] []))) = [] \<and>
   fst (sendDBRequest databaseConfig JSON_stringify (fetch_rejecting fetch_failed)
          (fresh_world (descriptor (Some ''/find'') [] []))) =
     Inl (MRHMissingParameterError Query_parameter) \<and>
   \<not> endpoint_unset (endpoint (request (fresh_world books_request))) \<and>
   fullQuery (request (fresh_world books_request)) \<noteq> [] \<and>
   fst (sendDBRequest databaseConfig JSON_stringify (fetch_rejecting fetch_failed)
          (fresh_world books_request)) \<noteq>
     Inl (MRHMissingParameterError Query_parameter) \<and>
   fst (sendDBRequest databaseConfig JSON_stringify (fetch_rejecting fetch_failed)
          (fresh_world books_request)) \<noteq>
     Inl (MRHMissingParameterError Endpoint_parameter)"
proof -
  let ?f = "fetch_rejecting fetch_failed"
  let ?w1 = "fresh_world (descriptor None [] [])"
  let ?w2 = "fresh_world (descriptor (Some []) [] [(''collection'', JStr ''comments'')])"
  let ?w3 = "fresh_world (descriptor (Some ''/find'') [] [])"
  let ?w4 = "fresh_world books_request"
  have u1: "endpoint_unset (endpoint (request ?w1))" by (simp add: run_defs)
  have q1: "fullQuery (request ?w1) = []" by (simp add: run_defs)
  have u2: "endpoint_unset (endpoint (request ?w2))" by (simp add: run_defs)
  have u3: "\<not> endpoint_unset (endpoint (request ?w3))" by (simp add: run_defs)
  have q3: "fullQuery (request ?w3) = []" by (simp add: run_defs)
  have u4: "\<not> endpoint_unset (endpoint (request ?w4))"
    by (simp add: books_request_def run_defs)
  have q4: "fullQuery (request ?w4) \<noteq> []" by (simp add: books_request_def run_defs)
  note c1 = C1_endpoint_checked_before_query [of databaseConfig JSON_stringify ?f ?w1]
  note c2 = C1_endpoint_checked_before_query [of databaseConfig JSON_stringify ?f ?w2]
  note c3 = C1_endpoint_checked_before_query [of databaseConfig JSON_stringify ?f ?w3]
  note c4 = C1_endpoint_checked_before_query [of databaseConfig JSON_stringify ?f ?w4]
  from c1 u1 have r1: "fst (sendDBRequest databaseConfig JSON_stringify ?f ?w1) =
      Inl (MRHMissingParameterError Endpoint_parameter)" by blast
  from c2 u2 have r2: "fst (sendDBRequest databaseConfig JSON_stringify ?f ?w2) =
      Inl (MRHMissingParameterError Endpoint_parameter)" by blast
  from c3 u3 q3 have r3: "fst (sendDBRequest databaseConfig JSON_stringify ?f ?w3) =
      Inl (MRHMissingParameterError Query_parameter)" by blast
  from c4 q4 have r4: "fst (sendDBRequest databaseConfig JSON_stringify ?f ?w4) \<noteq>
      Inl (MRHMissingParameterError Query_parameter)" by blast
  from c4 u4 have r5: "fst (sendDBRequest databaseConfig JSON_stringify ?f ?w4) \<noteq>
      Inl (MRHMissingParameterError Endpoint_parameter)" by blast
  from u1 q1 r1 u2 r2 u3 q3 r3 u4 q4 r4 r5 show ?thesis by blast
qed

text \<open>
  Claim C9. A dispatch that fails with \<open>MRHMissingParameterError\<close> has made no call to
  the transport: the list of calls is the one it started with, and the failure is one
  of the two validation failures (endpoint unset, or effective query empty).
\<close>

theorem C9_missing_parameter_makes_no_call:
  assumes "fst (sendDBRequest config stringify fetch w) = Inl (MRHMissingParameterError p)"
  shows "calls (snd (sendDBRequest config stringify fetch w)) = calls w \<and>
         (endpoint_unset (endpoint (request w)) \<or> fullQuery (request w) = [])"
proof (cases "endpoint_unset (endpoint (request w))")
  case True
  then show ?thesis by (simp add: sendDBRequest_endpoint_unset)
next
  case False
  then obtain ep where ep: "endpoint (request w) = Some ep" "ep \<noteq> []"
    by (auto simp: endpoint_unset_iff)
  show ?thesis
  proof (cases "fullQuery (request w) = []")
    case True
    with ep show ?thesis by (simp add: sendDBRequest_query_empty)
  next
    case nonempty: False
    have False
    proof (cases "serialisable (JObj (body_query config (request w)))")
      case True
      with ep nonempty assms show False
        by (simp add: sendDBRequest_valid split: sum.splits)
    next
      case False
      with ep nonempty assms show False
        by (simp add: sendDBRequest_not_serialisable)
    qed
    then show ?thesis ..
  qed
qed

theorem C9_missing_parameter_makes_no_call_witness:
  "fst (sendDBRequest databaseConfig JSON_stringify (fetch_rejecting fetch_failed)
          (fresh_world (descriptor (Some ''/find'') [] []))) =
     Inl (MRHMissingParameterError Query_parameter) \<and>
   calls (snd (sendDBRequest databaseConfig JSON_stringify (fetch_rejecting fetch_failed)
          (fresh_world (descriptor (Some ''/find'') [] [])))) = [] \<and>
   fst (sendDBRequest databaseConfig JSON_stringify (fetch_rejecting fetch_failed)
          (fresh_world (descriptor None [] [(''collection'', JStr ''comments'')]))) =
     Inl (MRHMissingParameterError Endpoint_parameter) \<and>
   calls (snd (sendDBRequest databaseConfig JSON_stringify (fetch_rejecting fetch_failed)
          (fresh_world (descriptor None [] [(''collection'', JStr ''comments'')])))) = []"
proof -
  let ?f = "fetch_rejecting fetch_failed"
  let ?w1 = "fresh_world (descriptor (Some ''/find'') [] [])"
  let ?w2 = "fresh_world (descriptor None [] [(''collection'', JStr ''comments'')])"
  have r1: "fst (sendDBRequest databaseConfig JSON_stringify ?f ?w1) =
      Inl (MRHMissingParameterError Query_parameter)" by (simp add: run_defs)
  have r2: "fst (sendDBRequest databaseConfig JSON_stringify ?f ?w2) =
      Inl (MRHMissingParameterError Endpoint_parameter)" by (simp add: run_defs)
  have c1: "calls (snd (sendDBRequest databaseConfig JSON_stringify ?f ?w1)) = calls ?w1"
    using C9_missing_parameter_makes_no_call [OF r1] by blast
  have c2: "calls (snd (sendDBRequest databaseConfig JSON_stringify ?f ?w2)) = calls ?w2"
    using C9_missing_parameter_makes_no_call [OF r2] by blast
  have "calls ?w1 = []" and "calls ?w2 = []" by (simp_all add: fresh_world_def)
  with r1 r2 c1 c2 show ?thesis by simp
qed

text \<open>
  Claim C10. Dispatch only reads the descriptor: whatever the outcome (a result, a
  missing-parameter error or a request error), the descriptor after the call is the
  descriptor before it; in particular its endpoint, its stored base query and its
  stored per-call query are unchanged.
\<close>

theorem C10_dispatch_leaves_descriptor_unchanged:
  "request (snd (sendDBRequest config stringify fetch w)) = request w \<and>
   endpoint (request (snd (sendDBRequest config stringify fetch w))) = endpoint (request w) \<and>
   baseQuery (request (snd (sendDBRequest config stringify fetch w))) = baseQuery (request w) \<and>
   query (request (snd (sendDBRequest config stringify fetch w))) = query (request w)"
proof -
  have "request (snd (sendDBRequest config stringify fetch w)) = request w"
    by (simp add: sendDBRequest_def Let_def split: option.splits sum.splits)
  then show ?thesis by simp
qed

section \<open>The request descriptor\<close>

lemma get_eq_map_of: "get obj = map_of obj"
  by (rule ext) (simp add: get_def)

lemma dom_get: "dom (get obj) = set (Object_keys obj)"
  by (simp add: get_eq_map_of Object_keys_def dom_map_of_conv_image_fst)

text \<open>
  Claim C2. For every base query and every per-call query (well-formed objects, that
  is, mappings), reading \<open>fullQuery\<close> returns their shallow merge, the per-call query
  applied second: a key of the per-call query has the per-call value, whole, any other
  key has the base value. So for every key present in both, the effective query maps
  the key to the per-call query's value; and the keys of the effective query are the
  keys of the two.
\<close>

theorem C2_fullQuery_is_shallow_merge:
  assumes "well_formed (baseQuery r)" and "well_formed (query r)"
  shows "get (fullQuery r) = get (baseQuery r) ++ get (query r) \<and>
         (\<forall>k \<in> set (Object_keys (baseQuery r)) \<inter> set (Object_keys (query r)).
            get (fullQuery r) k = get (query r) k) \<and>
         set (Object_keys (fullQuery r)) =
           set (Object_keys (baseQuery r)) \<union> set (Object_keys (query r))"
proof -
  have merge: "get (fullQuery r) = get (baseQuery r) ++ get (query r)"
    using assms by (rule get_fullQuery)
  have collide: "get (fullQuery r) k = get (query r) k"
    if "k \<in> set (Object_keys (baseQuery r)) \<inter> set (Object_keys (query r))" for k
  proof -
    from that have "k \<in> dom (get (query r))" by (simp add: dom_get)
    then show ?thesis by (simp add: merge map_add_dom_app_simps)
  qed
  have "dom (get (fullQuery r)) = dom (get (baseQuery r)) \<union> dom (get (query r))"
    by (simp add: merge Un_commute)
  then have "set (Object_keys (fullQuery r)) =
      set (Object_keys (baseQuery r)) \<union> set (Object_keys (query r))"
    by (simp add: dom_get)
  with merge collide show ?thesis by blast
qed

text \<open>
  The run of the test "should merge baseQuery and query correctly", with a nested
  \<^verbatim>\<open>filter\<close> added to the base query: \<^verbatim>\<open>limit\<close> and \<^verbatim>\<open>filter\<close> are in both, and the
  effective query holds the per-call values; the base's \<^verbatim>\<open>filter.year\<close> is gone.
\<close>

theorem C2_fullQuery_is_shallow_merge_witness:
  "well_formed (baseQuery movies_request) \<and> well_formed (query movies_request) \<and>
   ''limit'' \<in> set (Object_keys (baseQuery movies_request)) \<inter>
     set (Object_keys (query movies_request)) \<and>
   ''filter'' \<in> set (Object_keys (baseQuery movies_request)) \<inter>
     set (Object_keys (query movies_request)) \<and>
   get (fullQuery movies_request) ''limit'' = Some (JNum 5) \<and>
   get (fullQuery movies_request) ''filter'' = Some (JObj [(''genre'', JStr ''Sci-Fi'')]) \<and>
   get (fullQuery movies_request) ''collection'' = Some (JStr ''movies'') \<and>
   fullQuery movies_request =
     [(''collection'', JStr ''movies''), (''limit'', JNum 5),
      (''filter'', JObj [(''genre'', JStr ''Sci-Fi'')])]"
proof -
  have wb: "well_formed (baseQuery movies_request)"
    and wq: "well_formed (query movies_request)"
    by (simp_all add: movies_request_def run_defs)
  have kl: "''limit'' \<in> set (Object_keys (baseQuery movies_request)) \<inter>
      set (Object_keys (query movies_request))"
    and kf: "''filter'' \<in> set (Object_keys (baseQuery movies_request)) \<inter>
      set (Object_keys (query movies_request))"
    by (simp_all add: movies_request_def run_defs)
  note c2 = C2_fullQuery_is_shallow_merge [OF wb wq]
  from c2 kl have "get (fullQuery movies_request) ''limit'' = get (query movies_request) ''limit''"
    by blast
  then have l: "get (fullQuery movies_request) ''limit'' = Some (JNum 5)"
    by (simp add: movies_request_def descriptor_def set_query_def get_def)
  from c2 kf have "get (fullQuery movies_request) ''filter'' = get (query movies_request) ''filter''"
    by blast
  then have f: "get (fullQuery movies_request) ''filter'' = Some (JObj [(''genre'', JStr ''Sci-Fi'')])"
    by (simp add: movies_request_def descriptor_def set_query_def get_def)
  from c2 have "get (fullQuery movies_request) ''collection'' =
      (get (baseQuery movies_request) ++ get (query movies_request)) ''collection''"
    by simp
  then have c: "get (fullQuery movies_request) ''collection'' = Some (JStr ''movies'')"
    by (simp add: movies_request_def run_defs map_add_def)
  have e: "fullQuery movies_request =
     [(''collection'', JStr ''movies''), (''limit'', JNum 5),
      (''filter'', JObj [(''genre'', JStr ''Sci-Fi'')])]"
    by (simp add: movies_request_def run_defs)
  from wb wq kl kf l f c e show ?thesis by blast
qed

text \<open>
  Claim C3. On a fresh descriptor, assigning \<open>baseQuery = A\<close> and then \<open>baseQuery = B\<close>
  (mappings \<open>A\<close> and \<open>B\<close>) leaves the stored base query equal to the right-biased
  shallow merge of \<open>A\<close> and \<open>B\<close>: a key of \<open>B\<close> has \<open>B\<close>'s value, whole, any other key
  has \<open>A\<close>'s. Assigning \<open>query\<close> stores the assigned value as it is, whatever was stored
  before, and leaves the base query alone.
\<close>

theorem C3_baseQuery_merges_and_query_replaces:
  assumes "well_formed A" and "well_formed B"
  shows "get (baseQuery (set_baseQuery B (set_baseQuery A new_MongoDBRequest))) =
           get A ++ get B \<and>
         baseQuery (set_baseQuery B (set_baseQuery A new_MongoDBRequest)) = spread A B \<and>
         query (set_query Q' (set_query Q r)) = Q' \<and>
         baseQuery (set_query Q' r) = baseQuery r"
proof -
  have first: "baseQuery (set_baseQuery A new_MongoDBRequest) = A"
    using assms(1)
    by (simp add: set_baseQuery_def new_MongoDBRequest_def spread_Nil_right spread_Nil_left)
  have second: "baseQuery (set_baseQuery B (set_baseQuery A new_MongoDBRequest)) = spread A B"
    using assms(1) by (simp add: set_baseQuery_def [of B] first spread_Nil_left)
  have "get (spread A B) = get A ++ get B"
    using assms(2) by (rule get_spread)
  with second show ?thesis by (simp add: set_query_def)
qed

theorem C3_baseQuery_merges_and_query_replaces_witness:
  "well_formed [(''collection'', JStr ''books''), (''filter'', JObj [(''a'', JNum 1)])] \<and>
   well_formed [(''limit'', JNum 10), (''filter'', JObj [(''b'', JNum 2)])] \<and>
   baseQuery (set_baseQuery [(''limit'', JNum 10), (''filter'', JObj [(''b'', JNum 2)])]
     (set_baseQuery [(''collection'', JStr ''books''), (''filter'', JObj [(''a'', JNum 1)])]
        new_MongoDBRequest)) =
     [(''collection'', JStr ''books''), (''filter'', JObj [(''b'', JNum 2)]), (''limit'', JNum 10)] \<and>
   query (set_query [(''limit'', JNum 5)]
     (set_query [(''collection'', JStr ''books'')] new_MongoDBRequest)) = [(''limit'', JNum 5)]"
proof -
  let ?A = "[(''collection'', JStr ''books''), (''filter'', JObj [(''a'', JNum 1)])]"
  let ?B = "[(''limit'', JNum 10), (''filter'', JObj [(''b'', JNum 2)])]"
  have wa: "well_formed ?A" and wb: "well_formed ?B"
    by (simp_all add: well_formed_def Object_keys_def)
  note c3 = C3_baseQuery_merges_and_query_replaces [OF wa wb,
      of "[(''limit'', JNum 5)]" "[(''collection'', JStr ''books'')]" new_MongoDBRequest]
  have "spread ?A ?B =
      [(''collection'', JStr ''books''), (''filter'', JObj [(''b'', JNum 2)]), (''limit'', JNum 10)]"
    by (simp add: spread_def)
  with c3 wa wb show ?thesis by simp
qed

section \<open>The outgoing request\<close>

text \<open>
  Claim C4 says every valid dispatch (endpoint set, effective query not empty) makes
  exactly one POST. It does not when the body cannot be serialised: the request of the
  test "basic request" with \<^verbatim>\<open>limit: 10n\<close> added is valid, \<^verbatim>\<open>JSON.stringify\<close> throws on
  it before the \<^verbatim>\<open>try\<close> block, no call is made, and the \<^verbatim>\<open>TypeError\<close> reaches the
  caller as it is.
\<close>

theorem C4_valid_dispatch_without_call_counterexample:
  "endpoint (request (fresh_world bigint_request)) = Some ''/find'' \<and>
   fullQuery (request (fresh_world bigint_request)) \<noteq> [] \<and>
   calls (snd (sendDBRequest databaseConfig JSON_stringify (fetch_responding no_content)
                 (fresh_world bigint_request))) = [] \<and>
   fst (sendDBRequest databaseConfig JSON_stringify (fetch_responding no_content)
          (fresh_world bigint_request)) =
     Inl (Unclassified (JError ''TypeError'' ''Do not know how to serialize a BigInt''))"
  by (simp add: bigint_request_def run_defs)

text \<open>
  Claim C4, amended. A valid dispatch (endpoint set, effective query not empty) whose
  body object, the configured \<^verbatim>\<open>dataSource\<close> and \<^verbatim>\<open>database\<close> merged with the effective
  query, can be serialised makes exactly one call to the transport: a POST to
  \<open>baseUrl\<close> followed by the endpoint, whose body is that object serialised. In that
  object every key of the effective query has the effective query's value, also
  \<^verbatim>\<open>dataSource\<close> and \<^verbatim>\<open>database\<close> when the query has them.
\<close>

theorem C4_one_post_with_merged_body:
  assumes "endpoint (request w) = Some ep" and "ep \<noteq> []"
    and "fullQuery (request w) \<noteq> []"
    and "serialisable (JObj (body_query config (request w)))"
  shows "calls (snd (sendDBRequest config stringify fetch w)) =
           calls w @ [(baseUrl config @ ep, requestInit_of config stringify (request w))] \<and>
         http_method (requestInit_of config stringify (request w)) = ''POST'' \<and>
         body (requestInit_of config stringify (request w)) =
           stringify (JObj (body_query config (request w))) \<and>
         get (body_query config (request w)) =
           get [(''dataSource'', JStr (dataSource config)),
                (''database'', JStr (database config))] ++
           get (fullQuery (request w)) \<and>
         (\<forall>k \<in> set (Object_keys (fullQuery (request w))).
            get (body_query config (request w)) k = get (fullQuery (request w)) k)"
proof -
  have log: "calls (snd (sendDBRequest config stringify fetch w)) =
      calls w @ [(baseUrl config @ ep, requestInit_of config stringify (request w))]"
    using assms by (simp add: sendDBRequest_valid url_of_def)
  have merged: "get (body_query config (request w)) =
      get [(''dataSource'', JStr (dataSource config)), (''database'', JStr (database config))] ++
      get (fullQuery (request w))"
    unfolding body_query_def using well_formed_fullQuery by (rule get_spread)
  have wins: "get (body_query config (request w)) k = get (fullQuery (request w)) k"
    if "k \<in> set (Object_keys (fullQuery (request w)))" for k
  proof -
    from that have "k \<in> dom (get (fullQuery (request w)))" by (simp add: dom_get)
    then show ?thesis by (simp add: merged map_add_dom_app_simps)
  qed
  from log merged wins show ?thesis by (simp add: requestInit_of_def)
qed

text \<open>
  The run of the test "basic request": endpoint \<^verbatim>\<open>/find\<close>, query
  \<^verbatim>\<open>{ collection: "books" }\<close>.
\<close>

theorem C4_one_post_with_merged_body_witness:
  \<open>endpoint (request (fresh_world books_request)) = Some ''/find'' \<and>
   fullQuery (request (fresh_world books_request)) \<noteq> [] \<and>
   serialisable (JObj (body_query databaseConfig (request (fresh_world books_request)))) \<and>
   calls (snd (sendDBRequest databaseConfig JSON_stringify (fetch_responding no_content)
                 (fresh_world books_request))) =
     [(baseUrl databaseConfig @ ''/find'',
       requestInit_of databaseConfig JSON_stringify books_request)] \<and>
   http_method (requestInit_of databaseConfig JSON_stringify books_request) = ''POST'' \<and>
   body_query databaseConfig books_request =
     [(''dataSource'', JStr ''Cluster0''), (''database'', JStr ''sample_mflix''),
      (''collection'', JStr ''books'')] \<and>
   body (requestInit_of databaseConfig JSON_stringify books_request) =
     ''{"dataSource":"Cluster0","database":"sample_mflix","collection":"books"}''\<close>
proof -
  have e: "endpoint (request (fresh_world books_request)) = Some ''/find''"
    by (simp add: books_request_def run_defs)
  have ne: "''/find'' \<noteq> []" by simp
  have q: "fullQuery (request (fresh_world books_request)) \<noteq> []"
    by (simp add: books_request_def run_defs)
  have s: "serialisable (JObj (body_query databaseConfig (request (fresh_world books_request))))"
    by (simp add: books_request_def run_defs)
  note c4 = C4_one_post_with_merged_body [OF e ne q s, of JSON_stringify
      "fetch_responding no_content"]
  have r: "request (fresh_world books_request) = books_request"
    and c: "calls (fresh_world books_request) = []"
    by (simp_all add: fresh_world_def)
  have bq: "body_query databaseConfig books_request =
     [(''dataSource'', JStr ''Cluster0''), (''database'', JStr ''sample_mflix''),
      (''collection'', JStr ''books'')]"
    by (simp add: books_request_def run_defs)
  have \<open>JSON_stringify (JObj [(''dataSource'', JStr ''Cluster0''),
      (''database'', JStr ''sample_mflix''), (''collection'', JStr ''books'')]) =
     ''{"dataSource":"Cluster0","database":"sample_mflix","collection":"books"}''\<close>
    by (simp add: text_defs)
  with c4 e q s r c bq show ?thesis by simp
qed

section \<open>The response\<close>

text \<open>
  Claim C8. In a valid dispatch whose call to the transport (made with the serialised
  body) resolves to a response whose body parses as JSON, dispatch returns the parsed
  value as its result, whatever the status of the response is: a response that is not
  2xx is not made an error.
\<close>

theorem C8_parsed_body_returned_for_any_status:
  assumes "endpoint (request w) = Some ep" and "ep \<noteq> []"
    and "fullQuery (request w) \<noteq> []"
    and "serialisable (JObj (body_query config (request w)))"
    and "fetch (url_of config ep) (requestInit_of config stringify (request w)) =
           Inr \<lparr>status = code, json = Inr result\<rparr>"
  shows "fst (sendDBRequest config stringify fetch w) = Inr result"
  using assms by (simp add: sendDBRequest_valid)

text \<open>A response with status 404 and a JSON body is returned as a result.\<close>

theorem C8_parsed_body_returned_for_any_status_witness:
  "endpoint (request (fresh_world books_request)) = Some ''/find'' \<and>
   fullQuery (request (fresh_world books_request)) \<noteq> [] \<and>
   serialisable (JObj (body_query databaseConfig (request (fresh_world books_request)))) \<and>
   fetch_responding \<lparr>status = 404, json = Inr (JObj [(''error'', JStr ''no such action'')])\<rparr>
     (url_of databaseConfig ''/find'')
     (requestInit_of databaseConfig JSON_stringify (request (fresh_world books_request))) =
     Inr \<lparr>status = 404, json = Inr (JObj [(''error'', JStr ''no such action'')])\<rparr> \<and>
   fst (sendDBRequest databaseConfig JSON_stringify
          (fetch_responding
             \<lparr>status = 404, json = Inr (JObj [(''error'', JStr ''no such action'')])\<rparr>)
          (fresh_world books_request)) =
     Inr (JObj [(''error'', JStr ''no such action'')])"
proof -
  have e: "endpoint (request (fresh_world books_request)) = Some ''/find''"
    by (simp add: books_request_def run_defs)
  have ne: "''/find'' \<noteq> []" by simp
  have q: "fullQuery (request (fresh_world books_request)) \<noteq> []"
    by (simp add: books_request_def run_defs)
  have s: "serialisable (JObj (body_query databaseConfig (request (fresh_world books_request))))"
    by (simp add: books_request_def run_defs)
  have f: "fetch_responding
      \<lparr>status = 404, json = Inr (JObj [(''error'', JStr ''no such action'')])\<rparr>
      (url_of databaseConfig ''/find'')
      (requestInit_of databaseConfig JSON_stringify (request (fresh_world books_request))) =
      Inr \<lparr>status = 404, json = Inr (JObj [(''error'', JStr ''no such action'')])\<rparr>"
    by (simp add: fetch_responding_def)
  note c8 = C8_parsed_body_returned_for_any_status
    [where w = "fresh_world books_request" and ep = "''/find''" and config = databaseConfig
       and stringify = JSON_stringify and code = 404
       and result = "JObj [(''error'', JStr ''no such action'')]"
       and fetch = "fetch_responding
         \<lparr>status = 404, json = Inr (JObj [(''error'', JStr ''no such action'')])\<rparr>",
     OF e ne q s f]
  from e q s f c8 show ?thesis by blast
qed

section \<open>Headers\<close>

text \<open>
  Claim C5 says the outgoing headers are the two mandatory headers merged with the
  descriptor's headers, a descriptor header of the same name overriding the mandatory
  one. The dispatcher in \<^verbatim>\<open>main.ts\<close> builds the headers from the configuration alone and
  never reads the descriptor's headers. In the run of the test "should include custom
  headers in the request" the one outgoing call carries the two mandatory headers and
  no \<^verbatim>\<open>Custom-Header\<close>; and a descriptor header \<^verbatim>\<open>Content-Type\<close> does not replace the
  mandatory one.
\<close>

theorem C5_descriptor_headers_are_not_sent:
  "get (descriptor_headers custom_header_request) ''Custom-Header'' = Some ''HeaderValue'' \<and>
   map (headers \<circ> snd)
     (calls (snd (sendDBRequest databaseConfig JSON_stringify (fetch_responding no_content)
                    (fresh_world custom_header_request)))) =
     [[(''Content-Type'', ''application/json''), (''api-key'', ''API_KEY_IS_NOT_SETTED'')]] \<and>
   get (headers (requestInit_of databaseConfig JSON_stringify custom_header_request))
     ''Custom-Header'' = None \<and>
   get (descriptor_headers content_type_request) ''Content-Type'' = Some ''text/plain'' \<and>
   get (headers (requestInit_of databaseConfig JSON_stringify content_type_request))
     ''Content-Type'' = Some ''application/json''"
  by (simp add: custom_header_request_def content_type_request_def books_request_def
      no_content_def run_defs)

section \<open>Failures of the call\<close>

text \<open>
  Claim C6 says a dispatch whose transport call rejects fails with a request error
  that carries the endpoint, the effective query and the transport error's message, a
  string. In the run of the test "MRHRequestError should be thrown on fetch failure"
  (the transport rejects with \<^verbatim>\<open>new Error("Fetch failed")\<close>) the error does carry the
  endpoint and the effective query, but its field \<open>mongoErrorMessage\<close> holds the
  \<^verbatim>\<open>Error\<close> object that was caught, not the string \<^verbatim>\<open>Fetch failed\<close>.
\<close>

theorem C6_request_error_holds_the_caught_object:
  "fst (sendDBRequest databaseConfig JSON_stringify (fetch_rejecting fetch_failed)
          (fresh_world comments_request)) =
     Inl (MRHRequestError ''/find'' [(''collection'', JStr ''comments'')]
            (JError ''Error'' ''Fetch failed'')) \<and>
   fullQuery comments_request = [(''collection'', JStr ''comments'')] \<and>
   fst (sendDBRequest databaseConfig JSON_stringify (fetch_rejecting fetch_failed)
          (fresh_world comments_request)) \<noteq>
     Inl (MRHRequestError ''/find'' [(''collection'', JStr ''comments'')]
            (JStr ''Fetch failed''))"
  by (simp add: comments_request_def run_defs)

text \<open>
  Claim C7 says that when the call succeeds and the response body does not parse as
  JSON, the parse failure reaches the caller unclassified. It does not: the \<^verbatim>\<open>try\<close>
  block holds \<^verbatim>\<open>await response.json()\<close> as well, so the failure is caught and a
  request error is thrown in its place.
\<close>

theorem C7_parse_failure_unclassified_counterexample:
  "endpoint (request (fresh_world books_request)) = Some ''/find'' \<and>
   fullQuery (request (fresh_world books_request)) \<noteq> [] \<and>
   fetch_responding malformed (url_of databaseConfig ''/find'')
     (requestInit_of databaseConfig JSON_stringify (request (fresh_world books_request))) =
     Inr malformed \<and>
   json malformed = Inl not_json \<and>
   fst (sendDBRequest databaseConfig JSON_stringify (fetch_responding malformed)
          (fresh_world books_request)) \<noteq> Inl (Unclassified not_json) \<and>
   fst (sendDBRequest databaseConfig JSON_stringify (fetch_responding malformed)
          (fresh_world books_request)) =
     Inl (MRHRequestError ''/find'' [(''collection'', JStr ''books'')] not_json) \<and>
   is_MRHRequestError (MRHRequestError ''/find'' [(''collection'', JStr ''books'')] not_json)"
  by (simp add: books_request_def malformed_def run_defs)

text \<open>
  Claim C7, amended. In a valid dispatch whose call to the transport (made with the
  serialised body) resolves to a response whose body fails to parse as JSON, dispatch
  catches the parse failure and fails with a request error (not a missing-parameter
  error) whose fields hold the endpoint and the effective query.
\<close>

theorem C7_parse_failure_becomes_request_error:
  assumes "endpoint (request w) = Some ep" and "ep \<noteq> []"
    and "fullQuery (request w) \<noteq> []"
    and "serialisable (JObj (body_query config (request w)))"
    and "fetch (url_of config ep) (requestInit_of config stringify (request w)) = Inr response"
    and "json response = Inl e"
  shows "\<exists>err. fst (sendDBRequest config stringify fetch w) = Inl err \<and>
           is_MRHRequestError err \<and> \<not> is_MRHMissingParameterError err \<and>
           error_endpoint err = ep \<and> error_query err = fullQuery (request w)"
  using assms by (simp add: sendDBRequest_valid)

theorem C7_parse_failure_becomes_request_error_witness:
  "endpoint (request (fresh_world books_request)) = Some ''/find'' \<and>
   fullQuery (request (fresh_world books_request)) = [(''collection'', JStr ''books'')] \<and>
   serialisable (JObj (body_query databaseConfig (request (fresh_world books_request)))) \<and>
   fetch_responding malformed (url_of databaseConfig ''/find'')
     (requestInit_of databaseConfig JSON_stringify (request (fresh_world books_request))) =
     Inr malformed \<and>
   json malformed = Inl not_json \<and>
   (\<exists>err. fst (sendDBRequest databaseConfig JSON_stringify (fetch_responding malformed)
                  (fresh_world books_request)) = Inl err \<and>
          is_MRHRequestError err \<and> \<not> is_MRHMissingParameterError err \<and>
          error_endpoint err = ''/find'' \<and>
          error_query err = [(''collection'', JStr ''books'')])"
proof -
  have e: "endpoint (request (fresh_world books_request)) = Some ''/find''"
    by (simp add: books_request_def run_defs)
  have ne: "''/find'' \<noteq> []" by simp
  have q: "fullQuery (request (fresh_world books_request)) = [(''collection'', JStr ''books'')]"
    by (simp add: books_request_def run_defs)
  then have q': "fullQuery (request (fresh_world books_request)) \<noteq> []" by simp
  have s: "serialisable (JObj (body_query databaseConfig (request (fresh_world books_request))))"
    by (simp add: books_request_def run_defs)
  have f: "fetch_responding malformed (url_of databaseConfig ''/find'')
      (requestInit_of databaseConfig JSON_stringify (request (fresh_world books_request))) =
      Inr malformed"
    by (simp add: fetch_responding_def)
  have j: "json malformed = Inl not_json" by (simp add: malformed_def)
  note c7 = C7_parse_failure_becomes_request_error
    [where w = "fresh_world books_request" and ep = "''/find''" and config = databaseConfig
       and stringify = JSON_stringify and response = malformed and e = not_json
       and fetch = "fetch_responding malformed",
     OF e ne q' s f j]
  from c7 q have "\<exists>err. fst (sendDBRequest databaseConfig JSON_stringify
        (fetch_responding malformed) (fresh_world books_request)) = Inl err \<and>
      is_MRHRequestError err \<and> \<not> is_MRHMissingParameterError err \<and>
      error_endpoint err = ''/find'' \<and> error_query err = [(''collection'', JStr ''books'')]"
    by simp
  with e q s f j show ?thesis by blast
qed


end
